theory Spec2Isabelle
  imports Main "HOL-Library.Sublist"
begin

section \<open>JavaScript numbers and their string conversion\<close>

text \<open>
  The coordinates of a \<open>leaflet.LatLng\<close> are JavaScript numbers.  \<open>menus.ts\<close> only ever
  converts them to strings (\<open>lat.toString()\<close> and template literals, both of which are
  \<open>Number::toString\<close> with radix 10, ECMA-262 6.1.6.1.20).  That operation is defined on the
  shortest decimal representation of the number: a sign, an integer \<open>s\<close> with \<open>k\<close> digits and
  an exponent \<open>n\<close> such that the magnitude is \<open>s * 10 ^ (n - k)\<close>.  A number is kept in that
  form: \<open>Fin neg s n\<close>, where \<open>s\<close> is positive and not divisible by 10.  So \<open>1.5\<close> is
  \<open>Fin False 15 1\<close>, \<open>-2.25\<close> is \<open>Fin True 225 1\<close> and \<open>10\<close> is \<open>Fin False 1 2\<close>.
\<close>

datatype jsnum = NaN | Infinity bool | Zero | Fin bool nat int

definition digit_char :: "nat \<Rightarrow> char" where
  "digit_char d = ''0123456789'' ! (d mod 10)"

fun digits_of :: "nat \<Rightarrow> string" where
  "digits_of n =
     (if n < 10 then [digit_char n] else digits_of (n div 10) @ [digit_char (n mod 10)])"

declare digits_of.simps [simp del]

definition exponent_part :: "int \<Rightarrow> string" where
  "exponent_part e = ''e'' @ (if 0 \<le> e then ''+'' else ''-'') @ digits_of (nat \<bar>e\<bar>)"

fun num_toString :: "jsnum \<Rightarrow> string" where
  "num_toString NaN = ''NaN''"
| "num_toString Zero = ''0''"
| "num_toString (Infinity neg) = (if neg then ''-'' else []) @ ''Infinity''"
| "num_toString (Fin neg s n) =
     (if neg then ''-'' else []) @
     (let ds = digits_of s; k = int (length ds) in
      if k \<le> n \<and> n \<le> 21 then ds @ replicate (nat (n - k)) (CHR ''0'')
      else if 0 < n \<and> n \<le> 21 then take (nat n) ds @ ''.'' @ drop (nat n) ds
      else if -6 < n \<and> n \<le> 0 then ''0.'' @ replicate (nat (- n)) (CHR ''0'') @ ds
      else if k = 1 then ds @ exponent_part (n - 1)
      else take 1 ds @ ''.'' @ drop 1 ds @ exponent_part (n - 1))"

declare num_toString.simps [simp del]

text \<open>
  Line numbers and counts are non-negative integers.  Below \<open>2 ^ 53\<close> a JavaScript number
  holds every integer exactly, and its shortest decimal representation is the one below:
  the digits of the integer with the trailing zeros moved into the exponent.  From
  \<open>2 ^ 53\<close> up a number need not be the integer it was computed from, so \<open>number_of_nat\<close>
  stands for the code's number only below that bound, and the properties of
  \<open>addFocusLinesInMapView\<close> are stated for arguments below it.
\<close>

fun strip_zeros :: "nat \<Rightarrow> nat" where
  "strip_zeros n = (if n \<noteq> 0 \<and> n mod 10 = 0 then strip_zeros (n div 10) else n)"

declare strip_zeros.simps [simp del]

definition number_of_nat :: "nat \<Rightarrow> jsnum" where
  "number_of_nat n =
     (if n = 0 then Zero else Fin False (strip_zeros n) (int (length (digits_of n))))"

section \<open>JavaScript strings: \<open>String.prototype.replace\<close> with a string pattern\<close>

text \<open>
  \<open>s.replace(tok, rep)\<close> with a string \<open>tok\<close> looks for the first index at which \<open>tok\<close>
  occurs (\<open>StringIndexOf\<close>), leaves \<open>s\<close> alone when there is none, and otherwise splices
  the expansion of \<open>rep\<close> (\<open>GetSubstitution\<close>: \<open>$$\<close>, \<open>$&\<close>, \<open>$`\<close> and \<open>$'\<close> are special,
  there being no capture groups) between what precedes and what follows the match.
\<close>

fun indexOf :: "string \<Rightarrow> string \<Rightarrow> nat option" where
  "indexOf [] tok = (if tok = [] then Some 0 else None)"
| "indexOf (c # cs) tok =
     (if prefix tok (c # cs) then Some 0 else map_option Suc (indexOf cs tok))"

fun get_substitution :: "string \<Rightarrow> string \<Rightarrow> string \<Rightarrow> string \<Rightarrow> string" where
  "get_substitution matched pre post [] = []"
| "get_substitution matched pre post [c] = [c]"
| "get_substitution matched pre post (c # d # ds) =
     (if c = CHR ''$'' \<and> d = CHR ''$'' then CHR ''$'' # get_substitution matched pre post ds
      else if c = CHR ''$'' \<and> d = CHR ''&'' then matched @ get_substitution matched pre post ds
      else if c = CHR ''$'' \<and> d = CHR 0x60 then pre @ get_substitution matched pre post ds
      else if c = CHR ''$'' \<and> d = CHR 0x27 then post @ get_substitution matched pre post ds
      else c # get_substitution matched pre post (d # ds))"

definition js_replace :: "string \<Rightarrow> string \<Rightarrow> string \<Rightarrow> string" where
  "js_replace s tok rep =
     (case indexOf s tok of
        None \<Rightarrow> s
      | Some pos \<Rightarrow>
          (let preceding = take pos s; following = drop (pos + length tok) s
           in preceding @ get_substitution tok preceding following rep @ following))"

section \<open>The menu and the collaborators of \<open>menus.ts\<close>\<close>

text \<open>
  A promise is settled by the time an \<open>await\<close> resumes: it has a value or a reason for its
  rejection.  A value a handler receives may be a promise or not (the \<open>instanceof Promise\<close>
  test of the paste handler).
\<close>

datatype error = TypeError | Rejection string

datatype 'a promise = Resolved 'a | Rejected string

datatype 'a maybe_promise = Direct 'a | Promised "'a promise"

record LatLng =
  lat :: jsnum
  lng :: jsnum

record TFile =
  path :: string

record MouseEvent =
  ctrlKey :: bool
  shiftKey :: bool

record ParsedLocation =
  location :: LatLng

record OpenInSettings =
  name :: "string option"
  urlPattern :: "string option"

record PluginSettings =
  openIn :: "OpenInSettings list"
  newNoteNameFormat :: string
  newNotePath :: string
  newNoteTemplate :: string

record Editor =
  getSelection :: string

record UrlConvertor =
  hasMatchInLine :: "Editor \<Rightarrow> bool"
  parseLocationFromUrl :: "string \<Rightarrow> ParsedLocation option maybe_promise"

datatype note_mode = SingleLocation | MultiLocation

text \<open>
  What a click handler does is the sequence of calls it makes to its collaborators, in
  order; \<open>Await\<close> marks each suspension at an \<open>await\<close>.  The answers of the collaborators
  that a handler reads are the fields of \<open>World\<close>.
\<close>

datatype call =
    Open string
  | OpenMapWithLocation LatLng bool TFile nat bool
  | OpenMapWithState string bool bool
  | SelectionToLink
  | ConvertUrlAtCursorToGeolocation
  | ReadText
  | WriteText string
  | ParseLocationFromUrl string
  | InsertLocationToEditor LatLng
  | FormatWithTemplates string
  | NewNote note_mode string string string string
  | GoToFile TFile bool
  | Await

record World =
  readText :: "string promise"
  openMapWithLocation :: "unit promise"
  openMapWithState :: "unit promise"
  selectionToLink :: "unit promise"
  formatWithTemplates :: "string \<Rightarrow> string"
  newNote :: "note_mode \<Rightarrow> string \<Rightarrow> string \<Rightarrow> string \<Rightarrow> string \<Rightarrow> TFile promise"

type_synonym outcome = "call list \<times> error option"

type_synonym handler = "MouseEvent \<Rightarrow> World \<Rightarrow> outcome"

record MenuItem =
  itemTitle :: string
  itemIcon :: string
  itemSection :: string
  itemOnClick :: handler

type_synonym Menu = "MenuItem list"

definition addItem :: "Menu \<Rightarrow> MenuItem \<Rightarrow> Menu" where
  "addItem menu item = menu @ [item]"

text \<open>\<open>await p\<close> as the last step of a handler: the suspension, then \<open>p\<close>'s rejection if any.\<close>

definition await_last :: "call list \<Rightarrow> unit promise \<Rightarrow> outcome" where
  "await_last calls p =
     (case p of Resolved _ \<Rightarrow> (calls @ [Await], None)
              | Rejected r \<Rightarrow> (calls @ [Await], Some (Rejection r)))"

text \<open>JavaScript truthiness of a string that may be missing: \<open>!v\<close> holds for \<open>undefined\<close> and \<open>""\<close>.\<close>

definition truthy :: "string option \<Rightarrow> bool" where
  "truthy v = (case v of None \<Rightarrow> False | Some s \<Rightarrow> s \<noteq> [])"

definition str :: "string option \<Rightarrow> string" where
  "str v = (case v of None \<Rightarrow> ''undefined'' | Some s \<Rightarrow> s)"

section \<open>The contributors\<close>

text \<open>
  Each contributor takes the menu and returns it with its items appended, or the error it
  throws.  A geolocation that may be \<open>null\<close> is an \<open>option\<close>: \<open>if (geolocation)\<close> is the test
  for \<open>Some\<close>, and reading \<open>.lat\<close> of an absent one throws a \<open>TypeError\<close>.  The handles a
  contributor only passes on to its handlers (\<open>plugin\<close>, \<open>app\<close>, \<open>suggestor\<close>,
  \<open>mapContainer\<close>) are not parameters of the model: a call to one of them is an entry of
  the handler's call sequence, and its answer a field of \<open>World\<close>.
\<close>

subsection \<open>\<open>addShowOnMap\<close>\<close>

definition addShowOnMap :: "Menu \<Rightarrow> LatLng option \<Rightarrow> TFile \<Rightarrow> nat \<Rightarrow> error + Menu" where
  "addShowOnMap menu geolocation file editorLine =
     (case geolocation of
        None \<Rightarrow> Inr menu
      | Some g \<Rightarrow>
          Inr (addItem menu
            \<lparr> itemTitle = ''Show on map'', itemIcon = ''globe'', itemSection = ''mapview'',
              itemOnClick = (\<lambda>evt w.
                await_last [OpenMapWithLocation g (ctrlKey evt) file editorLine (shiftKey evt)]
                  (openMapWithLocation w)) \<rparr>))"

subsection \<open>\<open>populateOpenInItems\<close> and \<open>addOpenWith\<close>\<close>

text \<open>
  \<open>fullUrl\<close> is the constant of that name in the loop body, \<open>openInItem\<close> the item the body
  adds, and \<open>populateOpenInItems_loop\<close> the \<open>for\<close> loop over \<open>settings.openIn\<close>, whose
  \<open>continue\<close> is the first branch.
\<close>

definition fullUrl :: "string \<Rightarrow> LatLng \<Rightarrow> string" where
  "fullUrl pattern loc =
     js_replace (js_replace pattern ''{x}'' (num_toString (lat loc)))
       ''{y}'' (num_toString (lng loc))"

definition openInItem :: "OpenInSettings \<Rightarrow> string \<Rightarrow> MenuItem" where
  "openInItem setting url =
     \<lparr> itemTitle = ''Open in '' @ str (name setting), itemIcon = ''map-pin'',
       itemSection = ''mapview'', itemOnClick = (\<lambda>_ _. ([Open url], None)) \<rparr>"

fun populateOpenInItems_loop :: "Menu \<Rightarrow> LatLng option \<Rightarrow> OpenInSettings list \<Rightarrow> error + Menu" where
  "populateOpenInItems_loop menu loc [] = Inr menu"
| "populateOpenInItems_loop menu loc (setting # rest) =
     (if \<not> truthy (name setting) \<or> \<not> truthy (urlPattern setting)
      then populateOpenInItems_loop menu loc rest
      else (case loc of
              None \<Rightarrow> Inl TypeError
            | Some l \<Rightarrow>
                populateOpenInItems_loop
                  (addItem menu (openInItem setting (fullUrl (str (urlPattern setting)) l)))
                  loc rest))"

definition populateOpenInItems :: "Menu \<Rightarrow> LatLng option \<Rightarrow> PluginSettings \<Rightarrow> error + Menu" where
  "populateOpenInItems menu loc settings = populateOpenInItems_loop menu loc (openIn settings)"

definition addOpenWith :: "Menu \<Rightarrow> LatLng option \<Rightarrow> PluginSettings \<Rightarrow> error + Menu" where
  "addOpenWith menu geolocation settings =
     (case geolocation of
        None \<Rightarrow> Inr menu
      | Some g \<Rightarrow>
          populateOpenInItems
            (addItem menu
              \<lparr> itemTitle = ''Open with default app'', itemIcon = ''map-pin'',
                itemSection = ''mapview'',
                itemOnClick = (\<lambda>_ _.
                  ([Open (''geo:'' @ num_toString (lat g) @ '','' @ num_toString (lng g))], None)) \<rparr>)
            geolocation settings)"

subsection \<open>\<open>addUrlConversionItems\<close>\<close>

text \<open>
  \<open>pasteHandler\<close> is the click handler of the third item.  The callback that fills the
  second item is declared \<open>async\<close> but awaits nothing, so it has run to its end when
  \<open>addItem\<close> returns.
\<close>

definition pasteHandler :: "UrlConvertor \<Rightarrow> handler" where
  "pasteHandler urlConvertor = (\<lambda>_ w.
     (case readText w of
        Rejected r \<Rightarrow> ([ReadText, Await], Some (Rejection r))
      | Resolved clipboard \<Rightarrow>
          (let calls = [ReadText, Await, ParseLocationFromUrl clipboard];
               insert = (\<lambda>calls clipboardLocation.
                  (case clipboardLocation of
                     None \<Rightarrow> (calls, None)
                   | Some parsed \<Rightarrow> (calls @ [InsertLocationToEditor (location parsed)], None)))
           in (case parseLocationFromUrl urlConvertor clipboard of
                 Direct clipboardLocation \<Rightarrow> insert calls clipboardLocation
               | Promised (Rejected r) \<Rightarrow> (calls @ [Await], Some (Rejection r))
               | Promised (Resolved clipboardLocation) \<Rightarrow>
                   insert (calls @ [Await]) clipboardLocation))))"

definition addUrlConversionItems :: "Menu \<Rightarrow> Editor \<Rightarrow> UrlConvertor \<Rightarrow> Menu" where
  "addUrlConversionItems menu editor urlConvertor =
     (let menu1 =
            (if getSelection editor \<noteq> []
             then addItem menu
               \<lparr> itemTitle = ''Convert to geolocation (geosearch)'', itemIcon = ''search'',
                 itemSection = ''mapview'',
                 itemOnClick = (\<lambda>_ w. await_last [SelectionToLink] (selectionToLink w)) \<rparr>
             else menu);
          menu2 =
            (if hasMatchInLine urlConvertor editor
             then addItem menu1
               \<lparr> itemTitle = ''Convert to geolocation'', itemIcon = ''search'',
                 itemSection = ''mapview'',
                 itemOnClick = (\<lambda>_ _. ([ConvertUrlAtCursorToGeolocation], None)) \<rparr>
             else menu1)
      in addItem menu2
           \<lparr> itemTitle = ''Paste as geolocation'', itemIcon = ''clipboard-x'',
             itemSection = ''mapview'', itemOnClick = pasteHandler urlConvertor \<rparr>)"

subsection \<open>\<open>addNewNoteItems\<close>\<close>

definition newNoteHandler :: "note_mode \<Rightarrow> string \<Rightarrow> PluginSettings \<Rightarrow> handler" where
  "newNoteHandler mode locationString settings = (\<lambda>ev w.
     (let newFileName = formatWithTemplates w (newNoteNameFormat settings);
          calls = [FormatWithTemplates (newNoteNameFormat settings),
                   NewNote mode (newNotePath settings) newFileName locationString
                     (newNoteTemplate settings),
                   Await]
      in (case newNote w mode (newNotePath settings) newFileName locationString
                 (newNoteTemplate settings) of
            Rejected r \<Rightarrow> (calls, Some (Rejection r))
          | Resolved file \<Rightarrow> (calls @ [GoToFile file (ctrlKey ev)], None))))"

definition addNewNoteItems :: "Menu \<Rightarrow> LatLng option \<Rightarrow> PluginSettings \<Rightarrow> error + Menu" where
  "addNewNoteItems menu geolocation settings =
     (case geolocation of
        None \<Rightarrow> Inl TypeError
      | Some g \<Rightarrow>
          (let locationString = num_toString (lat g) @ '','' @ num_toString (lng g);
               menu1 = addItem menu
                 \<lparr> itemTitle = ''New note here (inline)'', itemIcon = ''edit'',
                   itemSection = ''new'',
                   itemOnClick = newNoteHandler MultiLocation locationString settings \<rparr>
           in Inr (addItem menu1
                 \<lparr> itemTitle = ''New note here (front matter)'', itemIcon = ''edit'',
                   itemSection = ''new'',
                   itemOnClick = newNoteHandler SingleLocation locationString settings \<rparr>)))"

subsection \<open>\<open>addCopyGeolocationItems\<close>\<close>

definition addCopyGeolocationItems :: "Menu \<Rightarrow> LatLng option \<Rightarrow> error + Menu" where
  "addCopyGeolocationItems menu geolocation =
     (case geolocation of
        None \<Rightarrow> Inl TypeError
      | Some g \<Rightarrow>
          (let locationString = num_toString (lat g) @ '','' @ num_toString (lng g);
               menu1 = addItem menu
                 \<lparr> itemTitle = ''Copy geolocation'', itemIcon = ''copy'', itemSection = ''copy'',
                   itemOnClick = (\<lambda>_ _. ([WriteText (''[](geo:'' @ locationString @ '')'')], None)) \<rparr>
           in Inr (addItem menu1
                 \<lparr> itemTitle = ''Copy geolocation as front matter'', itemIcon = ''copy'',
                   itemSection = ''copy'',
                   itemOnClick = (\<lambda>_ _.
                     ([WriteText (''---'' @ [CHR 0x0A] @ ''location: ['' @ locationString @ '']''
                         @ [CHR 0x0A] @ ''---'' @ [CHR 0x0A, CHR 0x0A])], None)) \<rparr>)))"

subsection \<open>\<open>addFocusLinesInMapView\<close>\<close>

text \<open>
  \<open>fromLine\<close>, \<open>toLine\<close> and \<open>numLocations\<close> are the source's \<open>number\<close> parameters holding
  a line number or a count: naturals below \<open>2 ^ 53\<close>, printed by \<open>Number::toString\<close>.
\<close>

definition addFocusLinesInMapView :: "Menu \<Rightarrow> TFile \<Rightarrow> nat \<Rightarrow> nat \<Rightarrow> nat \<Rightarrow> Menu" where
  "addFocusLinesInMapView menu file fromLine toLine numLocations =
     addItem menu
       \<lparr> itemTitle = ''Focus '' @ num_toString (number_of_nat numLocations) @ '' ''
           @ (if numLocations > 1 then ''geolocations'' else ''geolocation'') @ '' in Map View'',
         itemIcon = ''globe'', itemSection = ''mapview'',
         itemOnClick = (\<lambda>evt w.
           await_last
             [OpenMapWithState
                (''path:'' @ [CHR 0x22] @ path file @ [CHR 0x22] @ '' AND lines:''
                   @ num_toString (number_of_nat fromLine)
                   @ ''-'' @ num_toString (number_of_nat toLine))
                (ctrlKey evt) True]
             (openMapWithState w)) \<rparr>"

section \<open>The specification's vocabulary\<close>

text \<open>The rules that \<open>populateOpenInItems\<close> does not skip: name and pattern both non-empty.\<close>

definition validRule :: "OpenInSettings \<Rightarrow> bool" where
  "validRule r = (truthy (name r) \<and> truthy (urlPattern r))"

text \<open>
  The specification's substitution, in its own words.  \<open>replace_first tok rep s\<close> is \<open>s\<close>
  with only the first occurrence of \<open>tok\<close> replaced by \<open>rep\<close>.  \<open>subst_first_each\<close> reads
  the pattern once from left to right and replaces the first \<open>{x}\<close> by \<open>X\<close> and the first
  \<open>{y}\<close> by \<open>Y\<close>, both occurrences being those of the pattern itself; the two flags say
  which token has been replaced already.
\<close>

fun replace_first :: "string \<Rightarrow> string \<Rightarrow> string \<Rightarrow> string" where
  "replace_first tok rep [] = (if tok = [] then rep else [])"
| "replace_first tok rep (c # cs) =
     (if prefix tok (c # cs) then rep @ drop (length tok) (c # cs)
      else c # replace_first tok rep cs)"

fun subst_first_each :: "bool \<Rightarrow> bool \<Rightarrow> string \<Rightarrow> string \<Rightarrow> string \<Rightarrow> string" where
  "subst_first_each dx dy X Y [] = []"
| "subst_first_each dx dy X Y (c # cs) =
     (if \<not> dx \<and> prefix ''{x}'' (c # cs) then X @ subst_first_each True dy X Y (drop 2 cs)
      else if \<not> dy \<and> prefix ''{y}'' (c # cs) then Y @ subst_first_each dx True X Y (drop 2 cs)
      else c # subst_first_each dx dy X Y cs)"

text \<open>The characters a number's string is made of.\<close>

definition number_chars :: "char set" where
  "number_chars = set ''0123456789.-+eNaInfity''"

text \<open>
  The numbers that print in positional notation: zero, and the finite numbers of magnitude
  from \<open>10 ^ -6\<close> up to, not including, \<open>10 ^ 21\<close> (every coordinate in degrees that is not
  closer to zero than a millionth is one).  Their strings are made of \<open>decimal_chars\<close>.
\<close>

definition positional :: "jsnum \<Rightarrow> bool" where
  "positional x = (case x of Fin neg s n \<Rightarrow> -6 < n \<and> n \<le> 21 | Zero \<Rightarrow> True | _ \<Rightarrow> False)"

definition decimal_chars :: "char set" where
  "decimal_chars = set ''0123456789.-''"

text \<open>A world in which every collaborator answers at once, and a click without modifiers.\<close>

definition idle_world :: World where
  "idle_world =
     \<lparr>readText = Resolved ''geo:1,2'', openMapWithLocation = Resolved (),
      openMapWithState = Resolved (), selectionToLink = Resolved (),
      formatWithTemplates = (\<lambda>s. s), newNote = (\<lambda>_ _ _ _ _. Rejected [])\<rparr>"

definition plain_click :: MouseEvent where
  "plain_click = \<lparr>ctrlKey = False, shiftKey = False\<rparr>"

section \<open>Facts about the string conversions\<close>

lemma digit_char_0: "digit_char 0 = CHR ''0''"
  by (simp add: digit_char_def)

lemma digit_char_in: "digit_char d \<in> set ''0123456789''"
  unfolding digit_char_def by (rule nth_mem) simp

lemma digits_of_times10: "0 < n \<Longrightarrow> digits_of (n * 10) = digits_of n @ ''0''"
  using digits_of.simps [of "n * 10"] by (simp add: digit_char_0)

lemma digits_of_nonempty: "digits_of n \<noteq> []"
  using digits_of.simps [of n] by (simp split: if_splits)

lemma set_digits_of: "set (digits_of n) \<subseteq> set ''0123456789''"
proof (induction n rule: digits_of.induct)
  case (1 n)
  show ?case
  proof (cases "n < 10")
    case True
    then show ?thesis using digit_char_in [of n] by (simp add: digits_of.simps [of n])
  next
    case False
    with 1 have "set (digits_of (n div 10)) \<subseteq> set ''0123456789''" by simp
    with False show ?thesis
      using digit_char_in [of "n mod 10"] by (simp add: digits_of.simps [of n])
  qed
qed

text \<open>A natural number below \<open>10 ^ 21\<close> prints as its plain digit string.\<close>

lemma digits_of_strip_zeros:
  "0 < n \<Longrightarrow> \<exists>z. digits_of n = digits_of (strip_zeros n) @ replicate z (CHR ''0'')"
proof (induction n rule: strip_zeros.induct)
  case (1 n)
  show ?case
  proof (cases "n mod 10 = 0")
    case True
    then have n: "n = (n div 10) * 10" by auto
    with 1 have pos: "0 < n div 10" by (cases "n div 10") auto
    from 1 True pos obtain z where
      z: "digits_of (n div 10) = digits_of (strip_zeros (n div 10)) @ replicate z (CHR ''0'')"
      by auto
    have "digits_of n = digits_of (n div 10) @ ''0''"
      using digits_of_times10 [OF pos] n by simp
    also have "\<dots> = digits_of (strip_zeros (n div 10)) @ replicate (Suc z) (CHR ''0'')"
      by (simp add: z replicate_append_same)
    also have "strip_zeros (n div 10) = strip_zeros n"
      using 1 True by (simp add: strip_zeros.simps [of n])
    finally show ?thesis by blast
  next
    case False
    then have "strip_zeros n = n" by (simp add: strip_zeros.simps [of n])
    then have "digits_of n = digits_of (strip_zeros n) @ replicate 0 (CHR ''0'')" by simp
    then show ?thesis by blast
  qed
qed

lemma length_digits_of: "0 < k \<Longrightarrow> n < 10 ^ k \<Longrightarrow> length (digits_of n) \<le> k"
proof (induction k arbitrary: n)
  case 0
  then show ?case by simp
next
  case (Suc k)
  show ?case
  proof (cases "n < 10")
    case True
    then show ?thesis by (simp add: digits_of.simps [of n])
  next
    case False
    then have k: "0 < k" using Suc.prems by (cases k) auto
    have "n div 10 < 10 ^ k" using Suc.prems by (simp add: less_mult_imp_div_less)
    with Suc.IH k have "length (digits_of (n div 10)) \<le> k" by blast
    with False show ?thesis by (simp add: digits_of.simps [of n])
  qed
qed

lemma num_toString_number_of_nat:
  assumes "n < 10 ^ 21"
  shows "num_toString (number_of_nat n) = digits_of n"
proof (cases "n = 0")
  case True
  then show ?thesis by (simp add: number_of_nat_def num_toString.simps digits_of.simps [of 0] digit_char_0)
next
  case False
  then obtain z where z: "digits_of n = digits_of (strip_zeros n) @ replicate z (CHR ''0'')"
    using digits_of_strip_zeros [of n] by auto
  have len: "length (digits_of n) \<le> 21"
    using length_digits_of [of 21 n] assms by simp
  have lz: "length (digits_of n) = length (digits_of (strip_zeros n)) + z"
    using arg_cong [OF z, of length] by simp
  show ?thesis
    using False len lz
    by (simp add: number_of_nat_def num_toString.simps Let_def) (simp add: z [symmetric] lz)
qed

lemma digit_set_number_chars: "set ''0123456789'' \<subseteq> number_chars"
  by (simp add: number_chars_def)

lemma digits_number_chars: "set (digits_of n) \<subseteq> number_chars"
  by (rule subset_trans [OF set_digits_of digit_set_number_chars])

lemma sign_number_chars:
  "CHR ''0'' \<in> number_chars" "CHR ''.'' \<in> number_chars" "CHR ''-'' \<in> number_chars"
  "CHR ''+'' \<in> number_chars" "CHR ''e'' \<in> number_chars"
  by (simp_all add: number_chars_def)

lemma set_exponent_part: "set (exponent_part e) \<subseteq> number_chars"
  using digits_number_chars [of "nat \<bar>e\<bar>"]
  by (simp add: exponent_part_def sign_number_chars)

lemma set_num_toString: "set (num_toString x) \<subseteq> number_chars"
proof (cases x)
  case NaN
  then show ?thesis by (simp add: number_chars_def num_toString.simps)
next
  case (Infinity neg)
  then show ?thesis by (cases neg) (simp_all add: number_chars_def num_toString.simps)
next
  case Zero
  then show ?thesis by (simp add: number_chars_def num_toString.simps)
next
  case (Fin neg s n)
  have d: "set (digits_of s) \<subseteq> number_chars" by (rule digits_number_chars)
  have t: "set (take i (digits_of s)) \<subseteq> number_chars" for i
    using d set_take_subset [of i "digits_of s"] by blast
  have dr: "set (drop i (digits_of s)) \<subseteq> number_chars" for i
    using d set_drop_subset [of i "digits_of s"] by blast
  have e: "set (exponent_part (n - 1)) \<subseteq> number_chars" by (rule set_exponent_part)
  have r: "set (replicate j (CHR ''0'')) \<subseteq> number_chars" for j
    by (induction j) (simp_all add: sign_number_chars)
  show ?thesis
    unfolding Fin num_toString.simps Let_def
    using d t dr e r by (cases neg) (simp_all add: sign_number_chars)
qed

lemma no_comma: "CHR '','' \<notin> set (num_toString x)"
proof -
  have "CHR '','' \<notin> number_chars" by (simp add: number_chars_def)
  then show ?thesis using set_num_toString [of x] by blast
qed

lemma dot_notin_digits: "CHR ''.'' \<notin> set (digits_of s)"
  using set_digits_of [of s] by auto

lemma count_dot_digits: "count_list (digits_of s) (CHR ''.'') = 0"
  by (rule count_notin) (rule dot_notin_digits)

lemma count_dot_take: "count_list (take i (digits_of s)) (CHR ''.'') = 0"
  using dot_notin_digits [of s] set_take_subset [of i "digits_of s"]
  by (intro count_notin) blast

lemma count_dot_drop: "count_list (drop i (digits_of s)) (CHR ''.'') = 0"
  using dot_notin_digits [of s] set_drop_subset [of i "digits_of s"]
  by (intro count_notin) blast

lemma count_dot_zeros: "count_list (replicate j (CHR ''0'')) (CHR ''.'') = 0"
  by (induction j) simp_all

lemma digit_set_decimal_chars: "set ''0123456789'' \<subseteq> decimal_chars"
  by (simp add: decimal_chars_def)

lemma sign_decimal_chars:
  "CHR ''0'' \<in> decimal_chars" "CHR ''.'' \<in> decimal_chars" "CHR ''-'' \<in> decimal_chars"
  by (simp_all add: decimal_chars_def)

lemma positional_chars:
  assumes "positional x"
  shows "set (num_toString x) \<subseteq> decimal_chars"
proof (cases x)
  case (Fin neg s n)
  have d: "set (digits_of s) \<subseteq> decimal_chars"
    by (rule subset_trans [OF set_digits_of digit_set_decimal_chars])
  have t: "set (take i (digits_of s)) \<subseteq> decimal_chars" for i
    using d set_take_subset [of i "digits_of s"] by blast
  have dr: "set (drop i (digits_of s)) \<subseteq> decimal_chars" for i
    using d set_drop_subset [of i "digits_of s"] by blast
  have r: "set (replicate j (CHR ''0'')) \<subseteq> decimal_chars" for j
    by (induction j) (simp_all add: sign_decimal_chars)
  from assms Fin have n: "-6 < n" "n \<le> 21" by (simp_all add: positional_def)
  show ?thesis
    unfolding Fin num_toString.simps Let_def
    using d t dr r n by (cases neg) (simp_all add: sign_decimal_chars)
next
  case Zero
  then show ?thesis by (simp add: num_toString.simps sign_decimal_chars)
qed (use assms in \<open>simp_all add: positional_def\<close>)

lemma positional_dots:
  assumes "positional x"
  shows "count_list (num_toString x) (CHR ''.'') \<le> 1"
proof (cases x)
  case (Fin neg s n)
  from assms Fin have n: "-6 < n" "n \<le> 21" by (simp_all add: positional_def)
  show ?thesis
    unfolding Fin num_toString.simps Let_def
    using n by (cases neg)
      (simp_all add: count_dot_digits count_dot_take count_dot_drop count_dot_zeros)
next
  case Zero
  then show ?thesis by (simp add: num_toString.simps)
qed (use assms in \<open>simp_all add: positional_def\<close>)

lemma num_toString_exponent_examples:
  "num_toString (Fin False 1 (-6)) = ''1e-7''" "num_toString (Fin False 15 22) = ''1.5e+21''"
  by code_simp+

lemma num_10: "num_toString (Fin False (Suc 0) 2) = ''10''"
  by code_simp

lemma num_20: "num_toString (Fin False 2 2) = ''20''"
  by code_simp

section \<open>The open-in loop\<close>

lemma populate_loop_Some:
  "populateOpenInItems_loop menu (Some l) R =
     Inr (menu @ map (\<lambda>r. openInItem r (fullUrl (str (urlPattern r)) l)) (filter validRule R))"
  by (induction R arbitrary: menu) (simp_all add: validRule_def addItem_def)

lemma digits_small:
  "digits_of 10 = ''10''" "digits_of 12 = ''12''" "digits_of 120 = ''120''"
  by code_simp+

lemma num_small:
  "num_toString (number_of_nat (Suc 0)) = ''1''"
  "num_toString (number_of_nat 3) = ''3''"
  "num_toString (number_of_nat 9) = ''9''"
  by code_simp+

section \<open>\<open>replace\<close> and the substitution of the specification\<close>

lemma get_substitution_plain:
  "CHR ''$'' \<notin> set rep \<Longrightarrow> get_substitution matched pre post rep = rep"
  by (induction matched pre post rep rule: get_substitution.induct) auto

lemma indexOf_None: "indexOf s tok = None \<Longrightarrow> replace_first tok rep s = s"
  by (induction s) (auto split: if_splits)

lemma indexOf_Some:
  "indexOf s tok = Some i \<Longrightarrow>
     replace_first tok rep s = take i s @ rep @ drop (i + length tok) s"
  by (induction s arbitrary: i) (auto split: if_splits)

lemma js_replace_replace_first:
  "CHR ''$'' \<notin> set rep \<Longrightarrow> js_replace s tok rep = replace_first tok rep s"
  by (cases "indexOf s tok")
     (simp_all add: js_replace_def Let_def get_substitution_plain indexOf_None indexOf_Some)

text \<open>
  \<open>replace_first\<close> is what its name says: nothing changes when the token does not occur,
  and the occurrence replaced is the one no other occurrence begins before.
\<close>

lemma replace_first_absent: "\<not> sublist tok s \<Longrightarrow> replace_first tok rep s = s"
  by (induction s) (auto simp: sublist_Cons_right)

lemma replace_first_at:
  "tok \<noteq> [] \<Longrightarrow> \<not> sublist tok (pre @ butlast tok) \<Longrightarrow>
     replace_first tok rep (pre @ tok @ post) = pre @ rep @ post"
proof (induction pre)
  case Nil
  then show ?case by (cases tok) auto
next
  case (Cons c pre)
  have np: "\<not> prefix tok (c # pre @ tok @ post)"
  proof
    assume p: "prefix tok (c # pre @ tok @ post)"
    have "length tok \<le> length (c # pre @ butlast tok)" using Cons.prems(1) by (cases tok) auto
    moreover have "c # pre @ tok @ post = (c # pre @ butlast tok) @ (last tok # post)"
      using Cons.prems(1) by (simp add: append_butlast_last_id [symmetric] del: append_butlast_last_id)
    ultimately have "prefix tok (c # pre @ butlast tok)"
      using p by (metis prefix_length_prefix prefixI)
    then have "sublist tok (c # pre @ butlast tok)" by (rule prefix_imp_sublist)
    with Cons.prems(2) show False by simp
  qed
  have "\<not> sublist tok (pre @ butlast tok)"
    using Cons.prems(2) by (auto simp: sublist_Cons_right)
  with Cons.IH Cons.prems(1) have "replace_first tok rep (pre @ tok @ post) = pre @ rep @ post"
    by blast
  with np show ?case by simp
qed


lemma subst_done: "subst_first_each True True X Y p = p"
  by (induction p) auto

lemma subst_after_x: "subst_first_each True False X Y p = replace_first ''{y}'' Y p"
  by (induction p) (auto simp: subst_done numeral_2_eq_2)

lemma subst_after_y: "subst_first_each False True X Y p = replace_first ''{x}'' X p"
  by (induction p) (auto simp: subst_done numeral_2_eq_2)

lemma replace_first_skip:
  "CHR ''{'' \<notin> set X \<Longrightarrow> replace_first ''{y}'' Y (X @ r) = X @ replace_first ''{y}'' Y r"
  by (induction X) auto

lemma replace_x_hd:
  "X \<noteq> [] \<Longrightarrow> replace_first ''{x}'' X cs = d # ds \<Longrightarrow>
     (prefix ''{x}'' cs \<and> d = hd X) \<or> (\<not> prefix ''{x}'' cs \<and> (\<exists>cs'. cs = d # cs' \<and> ds = replace_first ''{x}'' X cs'))"
  by (cases cs; cases X) (auto split: if_splits)

lemma no_new_y:
  assumes X: "X \<noteq> []" "hd X \<noteq> CHR ''y''" "hd X \<noteq> CHR ''}''"
    and ny: "\<not> prefix ''{y}'' (c # cs)" and nx: "\<not> prefix ''{x}'' (c # cs)"
  shows "\<not> prefix ''{y}'' (c # replace_first ''{x}'' X cs)"
proof
  assume p: "prefix ''{y}'' (c # replace_first ''{x}'' X cs)"
  then obtain q where c: "c = CHR ''{''" and q: "replace_first ''{x}'' X cs = CHR ''y'' # CHR ''}'' # q"
    by (auto simp: prefix_def)
  from replace_x_hd [OF X(1) q] X(2) obtain cs' where
    cs: "cs = CHR ''y'' # cs'" and q': "CHR ''}'' # q = replace_first ''{x}'' X cs'"
    by auto
  from replace_x_hd [OF X(1) q' [symmetric]] X(3) obtain cs'' where "cs' = CHR ''}'' # cs''"
    by auto
  with c cs ny show False by simp
qed

lemma replace_first_Cons_no:
  "\<not> prefix tok (c # cs) \<Longrightarrow> replace_first tok rep (c # cs) = c # replace_first tok rep cs"
  by simp

lemma subst_Cons_no:
  "\<not> prefix ''{x}'' (c # cs) \<Longrightarrow> \<not> prefix ''{y}'' (c # cs) \<Longrightarrow>
     subst_first_each dx dy X Y (c # cs) = c # subst_first_each dx dy X Y cs"
  by auto

lemma sequential_is_simultaneous:
  assumes X: "X \<noteq> []" "hd X \<noteq> CHR ''y''" "hd X \<noteq> CHR ''}''" "CHR ''{'' \<notin> set X"
  shows "replace_first ''{y}'' Y (replace_first ''{x}'' X p) = subst_first_each False False X Y p"
proof (induction p)
  case Nil
  then show ?case by simp
next
  case (Cons c cs)
  consider (x) "prefix ''{x}'' (c # cs)"
    | (y) "\<not> prefix ''{x}'' (c # cs)" "prefix ''{y}'' (c # cs)"
    | (other) "\<not> prefix ''{x}'' (c # cs)" "\<not> prefix ''{y}'' (c # cs)"
    by blast
  then show ?case
  proof cases
    case x
    then obtain r where r: "c = CHR ''{''" "cs = ''x}'' @ r" by (auto simp: prefix_def)
    have "replace_first ''{x}'' X (c # cs) = X @ r" using r by simp
    moreover have "subst_first_each False False X Y (c # cs) = X @ replace_first ''{y}'' Y r"
      using r by (simp add: subst_after_x)
    ultimately show ?thesis
      by (simp only: replace_first_skip [OF X(4)])
  next
    case y
    then obtain r where r: "c = CHR ''{''" "cs = ''y}'' @ r" by (auto simp: prefix_def)
    have "replace_first ''{x}'' X (c # cs) = ''{y}'' @ replace_first ''{x}'' X r"
      using r by simp
    then have "replace_first ''{y}'' Y (replace_first ''{x}'' X (c # cs)) =
        Y @ replace_first ''{x}'' X r"
      by simp
    moreover have "subst_first_each False False X Y (c # cs) = Y @ replace_first ''{x}'' X r"
      using r by (simp add: subst_after_y)
    ultimately show ?thesis by simp
  next
    case other
    from no_new_y [OF X(1-3) other(2) other(1)]
    have n: "\<not> prefix ''{y}'' (c # replace_first ''{x}'' X cs)" .
    show ?thesis
      by (simp only: replace_first_Cons_no [OF other(1)] replace_first_Cons_no [OF n]
          subst_Cons_no [OF other] Cons.IH)
  qed
qed

lemma hd_digits_of: "hd (digits_of n) \<in> set ''0123456789''"
  using set_digits_of [of n] digits_of_nonempty [of n] hd_in_set [of "digits_of n"] by blast

lemma hd_num_toString:
  "num_toString x \<noteq> [] \<and> hd (num_toString x) \<in> set ''0123456789-NI''"
proof (cases x)
  case (Fin neg s n)
  have ne: "digits_of s \<noteq> []" by (rule digits_of_nonempty)
  have h: "hd (digits_of s) \<in> set ''0123456789-NI''"
    using hd_digits_of [of s] by auto
  have t: "0 < i \<Longrightarrow> take i (digits_of s) \<noteq> [] \<and> hd (take i (digits_of s)) = hd (digits_of s)" for i
    using ne by (cases "digits_of s"; cases i) auto
  show ?thesis
  proof (cases neg)
    case True
    then show ?thesis by (simp add: Fin num_toString.simps)
  next
    case False
    then show ?thesis
      using ne h t [of "nat n"] t [of 1]
      by (simp add: Fin num_toString.simps Let_def hd_append)
  qed
next
  case (Infinity neg)
  then show ?thesis by (cases neg) (simp_all add: num_toString.simps)
qed (simp_all add: num_toString.simps)

lemma populate_loop_skip:
  "\<not> validRule r \<Longrightarrow>
     populateOpenInItems_loop menu loc (R1 @ [r] @ R2) = populateOpenInItems_loop menu loc (R1 @ R2)"
  by (induction R1 arbitrary: menu) (auto simp: validRule_def split: option.splits)

lemma num_toString_rep:
  "num_toString x \<noteq> []" "hd (num_toString x) \<noteq> CHR ''y''" "hd (num_toString x) \<noteq> CHR ''}''"
  "CHR ''{'' \<notin> set (num_toString x)" "CHR ''$'' \<notin> set (num_toString x)"
proof -
  have h: "num_toString x \<noteq> [] \<and> hd (num_toString x) \<in> set ''0123456789-NI''"
    by (rule hd_num_toString)
  show "num_toString x \<noteq> []" using h by blast
  show "hd (num_toString x) \<noteq> CHR ''y''" using h by auto
  show "hd (num_toString x) \<noteq> CHR ''}''" using h by auto
  have "CHR ''{'' \<notin> number_chars" by (simp add: number_chars_def)
  then show "CHR ''{'' \<notin> set (num_toString x)" using set_num_toString [of x] by blast
  have "CHR ''$'' \<notin> number_chars" by (simp add: number_chars_def)
  then show "CHR ''$'' \<notin> set (num_toString x)" using set_num_toString [of x] by blast
qed

lemma fullUrl_sequential:
  "fullUrl pat loc =
     replace_first ''{y}'' (num_toString (lng loc)) (replace_first ''{x}'' (num_toString (lat loc)) pat)"
  by (simp add: fullUrl_def js_replace_replace_first num_toString_rep)

lemma fullUrl_simultaneous:
  "fullUrl pat loc =
     subst_first_each False False (num_toString (lat loc)) (num_toString (lng loc)) pat"
  unfolding fullUrl_sequential
  by (rule sequential_is_simultaneous) (rule num_toString_rep)+

lemma num_example:
  "num_toString (Fin False 15 1) = ''1.5''" "num_toString (Fin True 225 1) = ''-2.25''"
  by code_simp+

section \<open>Properties of the contributors\<close>

text \<open>
  C4.  With an absent geolocation, \<open>addShowOnMap\<close> and \<open>addOpenWith\<close> return normally and
  hand back the menu they were given: no item is added, the item count is unchanged and no
  error is raised.
\<close>

theorem absent_geolocation_noop:
  "addShowOnMap menu None file editorLine = Inr menu \<and> addOpenWith menu None settings = Inr menu"
  by (simp add: addShowOnMap_def addOpenWith_def)

text \<open>
  C10.  \<open>addNewNoteItems\<close> and \<open>addCopyGeolocationItems\<close> have no such gate: they read
  \<open>geolocation.lat\<close> while the menu is populated, so with an absent geolocation they fail
  with a \<open>TypeError\<close> at contribution time instead of adding no items.
\<close>

theorem absent_geolocation_fails:
  "addNewNoteItems menu None settings = Inl TypeError \<and>
   addCopyGeolocationItems menu None = Inl TypeError"
  by (simp add: addNewNoteItems_def addCopyGeolocationItems_def)

text \<open>
  C9.  For every point, \<open>addOpenWith\<close> adds the item "Open with default app" first, and its
  click handler calls \<open>open\<close> once, with \<open>geo:\<close>, the string of \<open>lat\<close>, a comma and the string
  of \<open>lng\<close>.  The two number strings are made of digits, \<open>.\<close>, a sign and the letters of the
  exponent, \<open>NaN\<close> and \<open>Infinity\<close> only: the conversion depends on no locale and never
  writes a comma or another grouping separator.  A coordinate that prints in positional
  notation is written with digits, at most one \<open>.\<close> and a minus sign only.
\<close>

theorem open_with_default_app_uri:
  "(\<exists>item rest. addOpenWith menu (Some p) settings = Inr (menu @ item # rest) \<and>
      itemTitle item = ''Open with default app'' \<and>
      itemOnClick item ev w =
        ([Open (''geo:'' @ num_toString (lat p) @ '','' @ num_toString (lng p))], None)) \<and>
   set (num_toString (lat p)) \<subseteq> number_chars \<and>
   set (num_toString (lng p)) \<subseteq> number_chars \<and>
   CHR '','' \<notin> set (num_toString (lat p)) \<and> CHR '','' \<notin> set (num_toString (lng p)) \<and>
   (positional (lat p) \<longrightarrow>
      set (num_toString (lat p)) \<subseteq> decimal_chars \<and>
      count_list (num_toString (lat p)) (CHR ''.'') \<le> 1) \<and>
   (positional (lng p) \<longrightarrow>
      set (num_toString (lng p)) \<subseteq> decimal_chars \<and>
      count_list (num_toString (lng p)) (CHR ''.'') \<le> 1)"
  using positional_dots [of "lat p"] positional_dots [of "lng p"]
  by (simp add: addOpenWith_def populateOpenInItems_def populate_loop_Some addItem_def
      set_num_toString no_comma positional_chars)

theorem open_with_default_app_uri_witness:
  "positional (Fin False 15 1) \<and> positional (Fin True 225 1) \<and>
   (\<exists>item rest.
      addOpenWith [] (Some \<lparr>lat = Fin False 15 1, lng = Fin True 225 1\<rparr>)
        \<lparr>openIn = [], newNoteNameFormat = [], newNotePath = [], newNoteTemplate = []\<rparr> =
        Inr ([] @ item # rest) \<and>
      itemOnClick item plain_click idle_world = ([Open ''geo:1.5,-2.25''], None)) \<and>
   set ''1.5'' \<subseteq> decimal_chars \<and> set ''-2.25'' \<subseteq> decimal_chars \<and>
   count_list ''1.5'' (CHR ''.'') \<le> 1 \<and> count_list ''-2.25'' (CHR ''.'') \<le> 1"
proof -
  note t = open_with_default_app_uri [of "[]" "\<lparr>lat = Fin False 15 1, lng = Fin True 225 1\<rparr>"
      "\<lparr>openIn = [], newNoteNameFormat = [], newNotePath = [], newNoteTemplate = []\<rparr>"
      plain_click idle_world]
  have p: "positional (Fin False 15 1)" "positional (Fin True 225 1)"
    by (simp_all add: positional_def)
  from t p show ?thesis by (simp add: num_example) blast
qed

text \<open>
  C5.  For every point, \<open>addCopyGeolocationItems\<close> adds exactly two items.  The handler of the
  first writes \<open>[](geo:lat,lng)\<close> to the clipboard; the handler of the second writes the
  front-matter block: a \<open>---\<close> line, the line \<open>location: [lat,lng]\<close>, a \<open>---\<close> line and an
  empty line.  For the point \<open>(10, 20)\<close> these are \<open>[](geo:10,20)\<close> and the three lines
  \<open>---\<close>, \<open>location: [10,20]\<close>, \<open>---\<close>, each ended by a newline, and one more newline.
\<close>

theorem copy_geolocation_items:
  "(\<exists>plain fm. addCopyGeolocationItems menu (Some g) = Inr (menu @ [plain, fm]) \<and>
      itemTitle plain = ''Copy geolocation'' \<and>
      itemOnClick plain ev w =
        ([WriteText (''[](geo:'' @ num_toString (lat g) @ '','' @ num_toString (lng g) @ '')'')],
         None) \<and>
      itemTitle fm = ''Copy geolocation as front matter'' \<and>
      itemOnClick fm ev w =
        ([WriteText (''---'' @ [CHR 0x0A] @ ''location: ['' @ num_toString (lat g) @ '',''
            @ num_toString (lng g) @ '']'' @ [CHR 0x0A] @ ''---'' @ [CHR 0x0A, CHR 0x0A])],
         None)) \<and>
   (\<exists>plain fm. addCopyGeolocationItems menu
        (Some \<lparr>lat = Fin False 1 2, lng = Fin False 2 2\<rparr>) = Inr (menu @ [plain, fm]) \<and>
      itemOnClick plain ev w = ([WriteText ''[](geo:10,20)''], None) \<and>
      itemOnClick fm ev w =
        ([WriteText (''---'' @ [CHR 0x0A] @ ''location: [10,20]'' @ [CHR 0x0A] @ ''---''
            @ [CHR 0x0A, CHR 0x0A])], None))"
  by (simp add: addCopyGeolocationItems_def addItem_def Let_def num_10 num_20)

text \<open>
  C7.  \<open>addUrlConversionItems\<close> appends, in this order: the geosearch item exactly when the
  editor's selection is non-empty, the "Convert to geolocation" item exactly when the URL
  convertor reports a match in the line, and always the paste item.  The two gates are
  independent, so both conversion items are there when both conditions hold.
\<close>

theorem url_conversion_gates:
  "\<exists>added. addUrlConversionItems menu editor urlConvertor = menu @ added \<and>
     map itemTitle added =
       (if getSelection editor \<noteq> [] then [''Convert to geolocation (geosearch)''] else []) @
       (if hasMatchInLine urlConvertor editor then [''Convert to geolocation''] else []) @
       [''Paste as geolocation''] \<and>
     (''Convert to geolocation (geosearch)'' \<in> set (map itemTitle added)
        \<longleftrightarrow> getSelection editor \<noteq> []) \<and>
     (''Convert to geolocation'' \<in> set (map itemTitle added)
        \<longleftrightarrow> hasMatchInLine urlConvertor editor) \<and>
     ''Paste as geolocation'' \<in> set (map itemTitle added)"
  by (simp add: addUrlConversionItems_def addItem_def Let_def)

text \<open>
  C8.  The click handlers of both new-note items make their calls in this order: the file
  name is formatted from the name template, the creation of the file is requested with that
  name and awaited, and \<open>goToFile\<close> is called with the created file only after that; when the
  creation is rejected there is no navigation at all.
\<close>

theorem new_note_order:
  "\<exists>inline fm. addNewNoteItems menu (Some g) settings = Inr (menu @ [inline, fm]) \<and>
     itemTitle inline = ''New note here (inline)'' \<and>
     itemTitle fm = ''New note here (front matter)'' \<and>
     fst (itemOnClick inline ev w) =
       [FormatWithTemplates (newNoteNameFormat settings),
        NewNote MultiLocation (newNotePath settings)
          (formatWithTemplates w (newNoteNameFormat settings))
          (num_toString (lat g) @ '','' @ num_toString (lng g)) (newNoteTemplate settings),
        Await] @
       (case newNote w MultiLocation (newNotePath settings)
               (formatWithTemplates w (newNoteNameFormat settings))
               (num_toString (lat g) @ '','' @ num_toString (lng g)) (newNoteTemplate settings) of
          Resolved file \<Rightarrow> [GoToFile file (ctrlKey ev)]
        | Rejected r \<Rightarrow> []) \<and>
     fst (itemOnClick fm ev w) =
       [FormatWithTemplates (newNoteNameFormat settings),
        NewNote SingleLocation (newNotePath settings)
          (formatWithTemplates w (newNoteNameFormat settings))
          (num_toString (lat g) @ '','' @ num_toString (lng g)) (newNoteTemplate settings),
        Await] @
       (case newNote w SingleLocation (newNotePath settings)
               (formatWithTemplates w (newNoteNameFormat settings))
               (num_toString (lat g) @ '','' @ num_toString (lng g)) (newNoteTemplate settings) of
          Resolved file \<Rightarrow> [GoToFile file (ctrlKey ev)]
        | Rejected r \<Rightarrow> [])"
  by (simp add: addNewNoteItems_def addItem_def Let_def newNoteHandler_def split: promise.splits)

text \<open>
  C6.  For a count of at least one, \<open>addFocusLinesInMapView\<close> adds one item.  Its title is
  \<open>Focus N geolocation in Map View\<close> when the count is 1 and
  \<open>Focus N geolocations in Map View\<close> otherwise, and its click opens the map with the query
  \<open>path:"<file path>" AND lines:<fromLine>-<toLine>\<close> and awaits it, where \<open>N\<close>,
  \<open><fromLine>\<close> and \<open><toLine>\<close> are the decimal digits of the count and of the two line
  numbers.  The count and the line numbers are integers below \<open>2 ^ 53\<close>, the range in which
  a JavaScript number holds every integer exactly.  For \<open>Notes/A.md\<close>, lines 3 to 9 and one
  location the title is \<open>Focus 1 geolocation in Map View\<close> and the query
  \<open>path:"Notes/A.md" AND lines:3-9\<close>.
\<close>

theorem focus_lines_item:
  assumes "1 \<le> numLocations" and "numLocations < 2 ^ 53"
    and "fromLine < 2 ^ 53" and "toLine < 2 ^ 53"
  shows "(\<exists>item. addFocusLinesInMapView menu file fromLine toLine numLocations = menu @ [item] \<and>
      itemTitle item =
        ''Focus '' @ digits_of numLocations @ '' ''
          @ (if numLocations = 1 then ''geolocation'' else ''geolocations'') @ '' in Map View'' \<and>
      fst (itemOnClick item evt w) =
        [OpenMapWithState
           (''path:'' @ [CHR 0x22] @ path file @ [CHR 0x22] @ '' AND lines:''
              @ digits_of fromLine @ ''-'' @ digits_of toLine)
           (ctrlKey evt) True,
         Await]) \<and>
    (\<exists>item. addFocusLinesInMapView menu \<lparr>path = ''Notes/A.md''\<rparr> 3 9 1 = menu @ [item] \<and>
      itemTitle item = ''Focus 1 geolocation in Map View'' \<and>
      fst (itemOnClick item evt w) =
        [OpenMapWithState
           (''path:'' @ [CHR 0x22] @ ''Notes/A.md'' @ [CHR 0x22] @ '' AND lines:3-9'')
           (ctrlKey evt) True,
         Await])"
proof (intro conjI)
  have le: "(2::nat) ^ 53 \<le> 10 ^ 21" by simp
  have n: "num_toString (number_of_nat numLocations) = digits_of numLocations"
    by (rule num_toString_number_of_nat) (rule less_le_trans [OF assms(2) le])
  have f: "num_toString (number_of_nat fromLine) = digits_of fromLine"
    by (rule num_toString_number_of_nat) (rule less_le_trans [OF assms(3) le])
  have t: "num_toString (number_of_nat toLine) = digits_of toLine"
    by (rule num_toString_number_of_nat) (rule less_le_trans [OF assms(4) le])
  show "\<exists>item. addFocusLinesInMapView menu file fromLine toLine numLocations = menu @ [item] \<and>
      itemTitle item =
        ''Focus '' @ digits_of numLocations @ '' ''
          @ (if numLocations = 1 then ''geolocation'' else ''geolocations'') @ '' in Map View'' \<and>
      fst (itemOnClick item evt w) =
        [OpenMapWithState
           (''path:'' @ [CHR 0x22] @ path file @ [CHR 0x22] @ '' AND lines:''
              @ digits_of fromLine @ ''-'' @ digits_of toLine)
           (ctrlKey evt) True,
         Await]"
    using assms(1)
    by (auto simp: addFocusLinesInMapView_def addItem_def await_last_def n f t
        split: promise.splits)
  show "\<exists>item. addFocusLinesInMapView menu \<lparr>path = ''Notes/A.md''\<rparr> 3 9 1 = menu @ [item] \<and>
      itemTitle item = ''Focus 1 geolocation in Map View'' \<and>
      fst (itemOnClick item evt w) =
        [OpenMapWithState
           (''path:'' @ [CHR 0x22] @ ''Notes/A.md'' @ [CHR 0x22] @ '' AND lines:3-9'')
           (ctrlKey evt) True,
         Await]"
    by (auto simp: addFocusLinesInMapView_def addItem_def await_last_def num_small
        split: promise.splits)
qed

theorem focus_lines_item_witness:
  "(1::nat) \<le> 12 \<and> (12::nat) < 2 ^ 53 \<and> (10::nat) < 2 ^ 53 \<and> (120::nat) < 2 ^ 53 \<and>
   (\<exists>item. addFocusLinesInMapView [] \<lparr>path = ''Notes/A.md''\<rparr> 10 120 12 = [] @ [item] \<and>
      itemTitle item = ''Focus 12 geolocations in Map View'' \<and>
      fst (itemOnClick item plain_click idle_world) =
        [OpenMapWithState
           (''path:'' @ [CHR 0x22] @ ''Notes/A.md'' @ [CHR 0x22] @ '' AND lines:10-120'')
           False True, Await])"
proof -
  have h: "(1::nat) \<le> 12" "(12::nat) < 2 ^ 53" "(10::nat) < 2 ^ 53" "(120::nat) < 2 ^ 53"
    by simp_all
  from focus_lines_item [OF h, of "[]" "\<lparr>path = ''Notes/A.md''\<rparr>" plain_click idle_world,
      THEN conjunct1]
  have "\<exists>item. addFocusLinesInMapView [] \<lparr>path = ''Notes/A.md''\<rparr> 10 120 12 = [] @ [item] \<and>
      itemTitle item = ''Focus 12 geolocations in Map View'' \<and>
      fst (itemOnClick item plain_click idle_world) =
        [OpenMapWithState
           (''path:'' @ [CHR 0x22] @ ''Notes/A.md'' @ [CHR 0x22] @ '' AND lines:10-120'')
           False True, Await]"
    by (simp add: digits_small plain_click_def)
  with h show ?thesis by blast
qed

text \<open>
  C3.  The paste item is always the last one added.  When the clipboard is read as \<open>text\<close>,
  its handler passes \<open>text\<close> to \<open>parseLocationFromUrl\<close>, awaits the result exactly when it
  is a promise, and then inserts the location into the editor when there is one; when the
  parse gives nothing, the handler ends without touching the editor and without an error.
\<close>

theorem paste_handler:
  assumes "readText w = Resolved text"
  shows "\<exists>before paste. addUrlConversionItems menu editor urlConvertor = before @ [paste] \<and>
     itemTitle paste = ''Paste as geolocation'' \<and>
     itemOnClick paste ev w =
       (case parseLocationFromUrl urlConvertor text of
          Direct None \<Rightarrow> ([ReadText, Await, ParseLocationFromUrl text], None)
        | Direct (Some parsed) \<Rightarrow>
            ([ReadText, Await, ParseLocationFromUrl text,
              InsertLocationToEditor (location parsed)], None)
        | Promised (Resolved None) \<Rightarrow>
            ([ReadText, Await, ParseLocationFromUrl text, Await], None)
        | Promised (Resolved (Some parsed)) \<Rightarrow>
            ([ReadText, Await, ParseLocationFromUrl text, Await,
              InsertLocationToEditor (location parsed)], None)
        | Promised (Rejected r) \<Rightarrow>
            ([ReadText, Await, ParseLocationFromUrl text, Await], Some (Rejection r)))"
  using assms
  by (simp add: addUrlConversionItems_def addItem_def Let_def pasteHandler_def
      split: maybe_promise.splits promise.splits option.splits)

theorem paste_handler_witness:
  "readText idle_world = Resolved ''geo:1,2'' \<and>
   (\<exists>before paste.
      addUrlConversionItems [] \<lparr>getSelection = []\<rparr>
        \<lparr>hasMatchInLine = (\<lambda>_. False),
         parseLocationFromUrl = (\<lambda>_. Promised (Resolved None))\<rparr> = before @ [paste] \<and>
      itemOnClick paste plain_click
        idle_world =
        ([ReadText, Await, ParseLocationFromUrl ''geo:1,2'', Await], None))"
  using paste_handler [of idle_world "''geo:1,2''" "[]" "\<lparr>getSelection = []\<rparr>"
        "\<lparr>hasMatchInLine = (\<lambda>_. False),
         parseLocationFromUrl = (\<lambda>_. Promised (Resolved None))\<rparr>"
        plain_click]
  by (simp add: idle_world_def) blast

text \<open>
  C2.  For every rule sequence and point, \<open>populateOpenInItems\<close> appends one item for each
  rule whose name and pattern are both non-empty, in the order of the sequence, titled
  \<open>Open in\<close> followed by the name; a rule that lacks either contributes nothing and the
  rules after it are processed as if it were not there.
\<close>

theorem open_in_items:
  "(\<exists>items. populateOpenInItems menu (Some loc) settings = Inr (menu @ items) \<and>
      map itemTitle items =
        map (\<lambda>r. ''Open in '' @ str (name r)) (filter validRule (openIn settings)) \<and>
      length items = length (filter validRule (openIn settings))) \<and>
   (validRule r \<longleftrightarrow>
      (\<exists>n p. name r = Some n \<and> n \<noteq> [] \<and> urlPattern r = Some p \<and> p \<noteq> [])) \<and>
   (\<not> validRule r \<longrightarrow>
      populateOpenInItems menu (Some loc) (settings\<lparr>openIn := R1 @ [r] @ R2\<rparr>) =
      populateOpenInItems menu (Some loc) (settings\<lparr>openIn := R1 @ R2\<rparr>))"
proof (intro conjI)
  show "\<exists>items. populateOpenInItems menu (Some loc) settings = Inr (menu @ items) \<and>
      map itemTitle items =
        map (\<lambda>r. ''Open in '' @ str (name r)) (filter validRule (openIn settings)) \<and>
      length items = length (filter validRule (openIn settings))"
    by (simp add: populateOpenInItems_def populate_loop_Some openInItem_def comp_def)
  show "validRule r \<longleftrightarrow>
      (\<exists>n p. name r = Some n \<and> n \<noteq> [] \<and> urlPattern r = Some p \<and> p \<noteq> [])"
    by (auto simp: validRule_def truthy_def split: option.splits)
  show "\<not> validRule r \<longrightarrow>
      populateOpenInItems menu (Some loc) (settings\<lparr>openIn := R1 @ [r] @ R2\<rparr>) =
      populateOpenInItems menu (Some loc) (settings\<lparr>openIn := R1 @ R2\<rparr>)"
    using populate_loop_skip [of r menu "Some loc" R1 R2]
    by (simp add: populateOpenInItems_def)
qed

theorem open_in_items_witness:
  "\<not> validRule \<lparr>name = Some ''A'', urlPattern = None\<rparr> \<and>
   (\<exists>items.
      populateOpenInItems [] (Some \<lparr>lat = Zero, lng = Zero\<rparr>)
        \<lparr>openIn = [\<lparr>name = Some ''B'', urlPattern = Some ''{x}''\<rparr>, \<lparr>name = Some ''A'', urlPattern = None\<rparr>, \<lparr>name = Some ''C'', urlPattern = Some ''{y}''\<rparr>],
        newNoteNameFormat = [], newNotePath = [], newNoteTemplate = []\<rparr> = Inr ([] @ items) \<and>
      map itemTitle items = [''Open in B'', ''Open in C''] \<and> length items = 2) \<and>
   populateOpenInItems [] (Some \<lparr>lat = Zero, lng = Zero\<rparr>)
     (\<lparr>openIn = [\<lparr>name = Some ''B'', urlPattern = Some ''{x}''\<rparr>, \<lparr>name = Some ''A'', urlPattern = None\<rparr>, \<lparr>name = Some ''C'', urlPattern = Some ''{y}''\<rparr>],
        newNoteNameFormat = [], newNotePath = [], newNoteTemplate = []\<rparr>
        \<lparr>openIn := [\<lparr>name = Some ''B'', urlPattern = Some ''{x}''\<rparr>] @ [\<lparr>name = Some ''A'', urlPattern = None\<rparr>] @ [\<lparr>name = Some ''C'', urlPattern = Some ''{y}''\<rparr>]\<rparr>) =
   populateOpenInItems [] (Some \<lparr>lat = Zero, lng = Zero\<rparr>)
     (\<lparr>openIn = [\<lparr>name = Some ''B'', urlPattern = Some ''{x}''\<rparr>, \<lparr>name = Some ''A'', urlPattern = None\<rparr>, \<lparr>name = Some ''C'', urlPattern = Some ''{y}''\<rparr>],
        newNoteNameFormat = [], newNotePath = [], newNoteTemplate = []\<rparr>
        \<lparr>openIn := [\<lparr>name = Some ''B'', urlPattern = Some ''{x}''\<rparr>] @ [\<lparr>name = Some ''C'', urlPattern = Some ''{y}''\<rparr>]\<rparr>)"
proof -
  note t = open_in_items [of "[]" "\<lparr>lat = Zero, lng = Zero\<rparr>"
      "\<lparr>openIn = [\<lparr>name = Some ''B'', urlPattern = Some ''{x}''\<rparr>, \<lparr>name = Some ''A'', urlPattern = None\<rparr>, \<lparr>name = Some ''C'', urlPattern = Some ''{y}''\<rparr>],
        newNoteNameFormat = [], newNotePath = [], newNoteTemplate = []\<rparr>"
      "\<lparr>name = Some ''A'', urlPattern = None\<rparr>" "[\<lparr>name = Some ''B'', urlPattern = Some ''{x}''\<rparr>]" "[\<lparr>name = Some ''C'', urlPattern = Some ''{y}''\<rparr>]"]
  have nv: "\<not> validRule \<lparr>name = Some ''A'', urlPattern = None\<rparr>"
    by (simp add: validRule_def truthy_def)
  have a: "\<exists>items.
      populateOpenInItems [] (Some \<lparr>lat = Zero, lng = Zero\<rparr>)
        \<lparr>openIn = [\<lparr>name = Some ''B'', urlPattern = Some ''{x}''\<rparr>, \<lparr>name = Some ''A'', urlPattern = None\<rparr>, \<lparr>name = Some ''C'', urlPattern = Some ''{y}''\<rparr>],
        newNoteNameFormat = [], newNotePath = [], newNoteTemplate = []\<rparr> = Inr ([] @ items) \<and>
      map itemTitle items = [''Open in B'', ''Open in C''] \<and> length items = 2"
    using t [THEN conjunct1] by (simp add: validRule_def truthy_def str_def numeral_2_eq_2)
  from t [THEN conjunct2, THEN conjunct2] nv a show ?thesis by blast
qed

text \<open>
  C1.  For a rule of the configuration with a non-empty name and a non-empty pattern, and any
  point, the item \<open>Open in <name>\<close> is in the menu and its click opens the pattern with only
  the first \<open>{x}\<close> replaced by the string of \<open>lat\<close> and only the first \<open>{y}\<close> replaced by the
  string of \<open>lng\<close>.  Replacing one token after the other, as the code does, gives the same
  URL.  A token that occurs more than once is replaced at its first occurrence and the
  substitution still succeeds.  For \<open>https://x.example/{x}/{y}\<close> and \<open>(1.5, -2.25)\<close> the URL
  is \<open>https://x.example/1.5/-2.25\<close>.
\<close>

theorem open_in_url:
  assumes "setting \<in> set (openIn settings)"
    and "name setting = Some n" and "n \<noteq> []"
    and "urlPattern setting = Some pat" and "pat \<noteq> []"
  shows "(\<exists>items item. populateOpenInItems menu (Some loc) settings = Inr (menu @ items) \<and>
      item \<in> set items \<and> itemTitle item = ''Open in '' @ n \<and>
      itemOnClick item ev w =
        ([Open (subst_first_each False False (num_toString (lat loc)) (num_toString (lng loc))
                  pat)], None)) \<and>
    subst_first_each False False (num_toString (lat loc)) (num_toString (lng loc)) pat =
      replace_first ''{y}'' (num_toString (lng loc))
        (replace_first ''{x}'' (num_toString (lat loc)) pat) \<and>
    fullUrl ''{x},{x};{y},{y}'' \<lparr>lat = Fin False 15 1, lng = Fin True 225 1\<rparr> =
      ''1.5,{x};-2.25,{y}''"
proof (intro conjI)
  let ?f = "\<lambda>r. openInItem r (fullUrl (str (urlPattern r)) loc)"
  have v: "validRule setting" using assms by (simp add: validRule_def truthy_def)
  have "populateOpenInItems menu (Some loc) settings =
      Inr (menu @ map ?f (filter validRule (openIn settings)))"
    by (simp add: populateOpenInItems_def populate_loop_Some)
  moreover have "?f setting \<in> set (map ?f (filter validRule (openIn settings)))"
    using assms(1) v by simp
  moreover have "itemTitle (?f setting) = ''Open in '' @ n"
    using assms by (simp add: openInItem_def str_def)
  moreover have "itemOnClick (?f setting) ev w =
      ([Open (subst_first_each False False (num_toString (lat loc)) (num_toString (lng loc))
                pat)], None)"
    using assms by (simp add: openInItem_def str_def fullUrl_simultaneous)
  ultimately show "\<exists>items item. populateOpenInItems menu (Some loc) settings = Inr (menu @ items) \<and>
      item \<in> set items \<and> itemTitle item = ''Open in '' @ n \<and>
      itemOnClick item ev w =
        ([Open (subst_first_each False False (num_toString (lat loc)) (num_toString (lng loc))
                  pat)], None)"
    by blast
  show "subst_first_each False False (num_toString (lat loc)) (num_toString (lng loc)) pat =
      replace_first ''{y}'' (num_toString (lng loc))
        (replace_first ''{x}'' (num_toString (lat loc)) pat)"
    using fullUrl_sequential [of pat loc] fullUrl_simultaneous [of pat loc] by simp
  show "fullUrl ''{x},{x};{y},{y}'' \<lparr>lat = Fin False 15 1, lng = Fin True 225 1\<rparr> =
      ''1.5,{x};-2.25,{y}''"
    by (simp add: fullUrl_simultaneous num_example)
qed

theorem open_in_url_witness:
  "\<lparr>name = Some ''X'', urlPattern = Some ''https://x.example/{x}/{y}''\<rparr>
     \<in> set (openIn \<lparr>openIn = [\<lparr>name = Some ''X'', urlPattern = Some ''https://x.example/{x}/{y}''\<rparr>],
                     newNoteNameFormat = [], newNotePath = [], newNoteTemplate = []\<rparr>) \<and>
   ''X'' \<noteq> [] \<and> ''https://x.example/{x}/{y}'' \<noteq> [] \<and>
   (\<exists>items item.
      populateOpenInItems [] (Some \<lparr>lat = Fin False 15 1, lng = Fin True 225 1\<rparr>)
        \<lparr>openIn = [\<lparr>name = Some ''X'', urlPattern = Some ''https://x.example/{x}/{y}''\<rparr>],
         newNoteNameFormat = [], newNotePath = [], newNoteTemplate = []\<rparr> = Inr ([] @ items) \<and>
      item \<in> set items \<and> itemTitle item = ''Open in X'' \<and>
      itemOnClick item plain_click idle_world = ([Open ''https://x.example/1.5/-2.25''], None))"
  using open_in_url [of "\<lparr>name = Some ''X'', urlPattern = Some ''https://x.example/{x}/{y}''\<rparr>"
      "\<lparr>openIn = [\<lparr>name = Some ''X'', urlPattern = Some ''https://x.example/{x}/{y}''\<rparr>],
         newNoteNameFormat = [], newNotePath = [], newNoteTemplate = []\<rparr>"
      "''X''" "''https://x.example/{x}/{y}''" "[]"
      "\<lparr>lat = Fin False 15 1, lng = Fin True 225 1\<rparr>" plain_click idle_world]
  by (simp add: num_example)

end
